theory Spec2Isabelle
  imports Main
begin

section \<open>Reporting a found document: photo picker, form schema and submission workflow\<close>

text \<open>
  The development embeds two source files: the photo picker component
  (\<^verbatim>\<open>PhotoUpload.tsx\<close>) and the page that owns the form (\<^verbatim>\<open>SignalerCarte\<close>).
  JavaScript strings are byte lists (\<^typ>\<open>string\<close>); the accented letters of the French
  messages are their UTF-8 bytes. Every check the code makes on a string (emptiness,
  the digit class, splitting at a dot, equality) reads ASCII characters only, so it gives
  the same answer on bytes as on UTF-16 code units.
\<close>

subsection \<open>Values\<close>

text \<open>The three properties of a browser \<^verbatim>\<open>File\<close> that the code reads.\<close>

record File =
  name :: string
  type :: string
  size_bytes :: nat

text \<open>
  TypeScript's types are erased when the code runs, so what the page keeps in its
  \<^verbatim>\<open>file\<close> state is whatever value the setter received: \<^verbatim>\<open>null\<close>, a \<^verbatim>\<open>File\<close>, or
  the object \<^verbatim>\<open>{ target: { files: [file] } }\<close> that the picker builds.
\<close>

datatype js_value =
    JNull
  | JFile File
  | JChangeEvent "File list"

text \<open>
  The values of the form (\<^verbatim>\<open>z.infer<typeof formSchema>\<close>): four strings, and a
  description that may be \<^verbatim>\<open>undefined\<close>.
\<close>

record draft =
  documentType :: string
  cardNumber :: string
  location :: string
  foundDate :: string
  description :: "string option"

text \<open>The row sent to the table \<^verbatim>\<open>reported_cards\<close>; \<^verbatim>\<open>null\<close> is \<^const>\<open>None\<close>.\<close>

record reported_card =
  reporter_id :: string
  card_number :: string
  row_location :: string
  found_date :: string
  row_description :: "string option"
  photo_url :: "string option"
  document_type :: string

datatype user = User (user_id: string)

datatype variant = Default | Destructive

datatype toast_msg = ToastMsg (title: string) (body: string) (variant: variant)

text \<open>A zod issue: the field it is about and the message of the failed check.\<close>

datatype issue = Issue (path: string) (message: string)

text \<open>What the \<^verbatim>\<open>try\<close> block of the submit handler can throw.\<close>

datatype thrown =
    TypeError
  | StorageError string
  | PostgrestError string

text \<open>The three places where the submit handler is suspended on a network call.\<close>

datatype await_point = AwaitGetUser | AwaitUpload | AwaitInsert

subsection \<open>State, effects and collaborators\<close>

text \<open>
  The state of the page: the ref \<^verbatim>\<open>mounted.current\<close>, the two \<^verbatim>\<open>useState\<close> cells of
  the page, the current values held by react-hook-form, and the \<^verbatim>\<open>useState\<close> cell of
  the picker.
\<close>

record page =
  mounted :: bool
  isSubmitting :: bool
  "file" :: js_value
  formValues :: draft
  isDragging :: bool

text \<open>Every effect is appended to a trace, in the order the code performs it.\<close>

datatype event =
    SetIsSubmitting bool
  | SetFile js_value
  | SetIsDragging bool
  | ToastShown toast_msg
  | Navigate string
  | ConsoleError thrown
  | AuthGetUser
  | StorageUpload string string js_value
  | DbInsert string reported_card
  | ShowErrors "issue list"
  | Teardown

type_synonym run = "page \<times> event list"

text \<open>
  The answers of the collaborators during one submission: the user the identity service
  resolves, the error of the upload and of the insert (if any), the public URL of a
  storage path, the text that \<^verbatim>\<open>Math.random()\<close> prints as, and the network call during
  which the page is unmounted (if it is).
\<close>

record env =
  getUser :: "user option"
  uploadError :: "string option"
  publicUrl :: "string \<Rightarrow> string"
  insertError :: "string option"
  random :: string
  unmountAt :: "await_point option"

definition emit :: "event \<Rightarrow> run \<Rightarrow> run" where
  "emit e r = (fst r, snd r @ [e])"

definition setIsSubmitting :: "bool \<Rightarrow> run \<Rightarrow> run" where
  "setIsSubmitting b r = emit (SetIsSubmitting b) ((fst r)\<lparr>isSubmitting := b\<rparr>, snd r)"

definition setFile :: "js_value \<Rightarrow> run \<Rightarrow> run" where
  "setFile v r = emit (SetFile v) ((fst r)\<lparr>file := v\<rparr>, snd r)"

definition setIsDragging :: "bool \<Rightarrow> run \<Rightarrow> run" where
  "setIsDragging b r = emit (SetIsDragging b) ((fst r)\<lparr>isDragging := b\<rparr>, snd r)"

definition toast :: "toast_msg \<Rightarrow> run \<Rightarrow> run" where
  "toast t r = emit (ToastShown t) r"

definition navigate :: "string \<Rightarrow> run \<Rightarrow> run" where
  "navigate to r = emit (Navigate to) r"

subsection \<open>Messages\<close>

definition e_acute :: string where
  "e_acute = [CHR 0xC3, CHR 0xA9]"

definition e_grave :: string where
  "e_grave = [CHR 0xC3, CHR 0xA8]"

definition e_circumflex :: string where
  "e_circumflex = [CHR 0xC3, CHR 0xAA]"

definition toast_unsupported :: toast_msg where
  "toast_unsupported = ToastMsg
     (''Type de fichier non support'' @ e_acute)
     (''Veuillez s'' @ e_acute @ ''lectionner une image au format JPG ou PNG'')
     Destructive"

definition toast_too_large :: toast_msg where
  "toast_too_large = ToastMsg
     ''Fichier trop volumineux''
     (''La taille du fichier ne doit pas d'' @ e_acute @ ''passer 5MB'')
     Destructive"

definition toast_unauthenticated :: toast_msg where
  "toast_unauthenticated = ToastMsg
     ''Erreur''
     (''Vous devez '' @ e_circumflex @ ''tre connect'' @ e_acute @ '' pour signaler un document'')
     Destructive"

definition toast_sent :: toast_msg where
  "toast_sent = ToastMsg
     (''Signalement envoy'' @ e_acute)
     (''Votre signalement a '' @ e_acute @ ''t'' @ e_acute @ '' enregistr'' @ e_acute
        @ '' avec succ'' @ e_grave @ ''s'')
     Default"

definition toast_failed :: toast_msg where
  "toast_failed = ToastMsg
     ''Erreur''
     (''Une erreur est survenue lors de l'' @ [CHR 0x27] @ ''envoi du signalement'')
     Destructive"

subsection \<open>The photo picker (\<^verbatim>\<open>PhotoUpload.tsx\<close>)\<close>

definition allowedTypes :: "string list" where
  "allowedTypes = [''image/jpeg'', ''image/png'', ''image/jpg'']"

definition maxSize :: nat where
  "maxSize = 5 * 1024 * 1024"

text \<open>
  \<^verbatim>\<open>validateAndHandleFile\<close>: the type is checked first, then the size; each failing check
  shows its toast and returns. A file that passes is wrapped in a synthetic change event,
  and the prop \<^verbatim>\<open>onFileChange\<close> is called with that event.
\<close>

definition validateAndHandleFile :: "(js_value \<Rightarrow> run \<Rightarrow> run) \<Rightarrow> File \<Rightarrow> run \<Rightarrow> run" where
  "validateAndHandleFile onFileChange f r =
     (if type f \<notin> set allowedTypes then toast toast_unsupported r
      else if size_bytes f > maxSize then toast toast_too_large r
      else onFileChange (JChangeEvent [f]) r)"

definition handleDragOver :: "run \<Rightarrow> run" where
  "handleDragOver r = setIsDragging True r"

definition handleDragLeave :: "run \<Rightarrow> run" where
  "handleDragLeave r = setIsDragging False r"

text \<open>\<^verbatim>\<open>handleDrop\<close>: only \<^verbatim>\<open>e.dataTransfer.files[0]\<close> is looked at.\<close>

definition handleDrop :: "(js_value \<Rightarrow> run \<Rightarrow> run) \<Rightarrow> File list \<Rightarrow> run \<Rightarrow> run" where
  "handleDrop onFileChange files r =
     (let r1 = setIsDragging False r in
      case files of
        [] \<Rightarrow> r1
      | droppedFile # _ \<Rightarrow> validateAndHandleFile onFileChange droppedFile r1)"

text \<open>\<^verbatim>\<open>handleFileInputChange\<close>: \<^verbatim>\<open>e.target.files\<close> may be \<^verbatim>\<open>null\<close>.\<close>

definition handleFileInputChange ::
    "(js_value \<Rightarrow> run \<Rightarrow> run) \<Rightarrow> File list option \<Rightarrow> run \<Rightarrow> run" where
  "handleFileInputChange onFileChange files r =
     (case files of
        None \<Rightarrow> r
      | Some [] \<Rightarrow> r
      | Some (selectedFile # _) \<Rightarrow> validateAndHandleFile onFileChange selectedFile r)"

subsection \<open>The form schema\<close>

text \<open>The class \<^verbatim>\<open>\d\<close> of a JavaScript pattern: the ten ASCII digits.\<close>

definition is_digit :: "char \<Rightarrow> bool" where
  "is_digit c = (c \<in> set ''0123456789'')"

text \<open>
  The pattern \<^verbatim>\<open>/^\d+$/\<close>, matched from the start of the string: one digit, then as many
  digits as there are, then the end of the input (without the \<^verbatim>\<open>m\<close> flag, \<^verbatim>\<open>$\<close> is the end
  of the input only).
\<close>

fun skip_digits :: "string \<Rightarrow> string" where
  "skip_digits [] = []"
| "skip_digits (c # cs) = (if is_digit c then skip_digits cs else c # cs)"

definition regex_digits :: "string \<Rightarrow> bool" where
  "regex_digits s = (case s of [] \<Rightarrow> False | c # cs \<Rightarrow> is_digit c \<and> skip_digits cs = [])"

text \<open>\<^verbatim>\<open>z.string().min(1, msg)\<close> and \<^verbatim>\<open>.regex(re, msg)\<close>: each failing check adds its issue.\<close>

definition min1 :: "string \<Rightarrow> string \<Rightarrow> string \<Rightarrow> issue list" where
  "min1 field msg s = (if length s < 1 then [Issue field msg] else [])"

definition regex_check :: "string \<Rightarrow> string \<Rightarrow> string \<Rightarrow> issue list" where
  "regex_check field msg s = (if regex_digits s then [] else [Issue field msg])"

definition formSchema :: "draft \<Rightarrow> issue list" where
  "formSchema v =
     min1 ''documentType'' ''Le type de document est requis'' (documentType v)
   @ min1 ''cardNumber'' (''Le num'' @ e_acute @ ''ro du document est requis'') (cardNumber v)
   @ regex_check ''cardNumber''
       (''Le num'' @ e_acute @ ''ro du document doit contenir uniquement des chiffres'')
       (cardNumber v)
   @ min1 ''location'' (''Le lieu de d'' @ e_acute @ ''couverte est requis'') (location v)
   @ min1 ''foundDate'' (''La date de d'' @ e_acute @ ''couverte est requise'') (foundDate v)"

definition defaultValues :: draft where
  "defaultValues = \<lparr>documentType = ''id'', cardNumber = '''', location = '''',
     foundDate = '''', description = Some ''''\<rparr>"

subsection \<open>The page (\<^verbatim>\<open>SignalerCarte\<close>)\<close>

text \<open>The cleanup of the effect: \<^verbatim>\<open>mounted.current = false; form.reset()\<close>.\<close>

definition teardown :: "run \<Rightarrow> run" where
  "teardown r = emit Teardown ((fst r)\<lparr>mounted := False, formValues := defaultValues\<rparr>, snd r)"

text \<open>An \<^verbatim>\<open>await\<close>: the handler is suspended, and the page may be unmounted meanwhile.\<close>

definition suspend :: "env \<Rightarrow> await_point \<Rightarrow> run \<Rightarrow> run" where
  "suspend env pt r = (if unmountAt env = Some pt then teardown r else r)"

text \<open>\<^verbatim>\<open>s.split('.')\<close>: the pieces between the dots; never an empty list.\<close>

fun split_acc :: "char \<Rightarrow> string \<Rightarrow> string \<Rightarrow> string list" where
  "split_acc d acc [] = [rev acc]"
| "split_acc d acc (c # cs) =
     (if c = d then rev acc # split_acc d [] cs else split_acc d (c # acc) cs)"

definition split :: "char \<Rightarrow> string \<Rightarrow> string list" where
  "split d s = split_acc d [] s"

text \<open>\<^verbatim>\<open>x || null\<close> on a string that may be \<^verbatim>\<open>undefined\<close>: the empty string is falsy.\<close>

definition or_null :: "string option \<Rightarrow> string option" where
  "or_null x = (case x of None \<Rightarrow> None | Some s \<Rightarrow> (if s = [] then None else Some s))"

text \<open>
  The block \<^verbatim>\<open>if (file) { ... }\<close> of the submit handler. It either throws (left) or
  ends with the value of \<^verbatim>\<open>photoUrl\<close> (right). An object without a \<^verbatim>\<open>name\<close> makes
  \<^verbatim>\<open>file.name.split\<close> throw a \<^verbatim>\<open>TypeError\<close> before anything is uploaded.
\<close>

definition upload_photo :: "env \<Rightarrow> js_value \<Rightarrow> run \<Rightarrow> (thrown \<times> run) + (string option \<times> run)" where
  "upload_photo env fl r =
     (case fl of
        JNull \<Rightarrow> Inr (None, r)
      | JChangeEvent fs \<Rightarrow> Inl (TypeError, r)
      | JFile f \<Rightarrow>
          (let fileExt = last (split CHR ''.'' (name f));
               fileName = random env @ ''.'' @ fileExt;
               filePath = fileName;
               r1 = suspend env AwaitUpload (emit (StorageUpload ''card_photos'' filePath fl) r)
           in case uploadError env of
                Some e \<Rightarrow> Inl (StorageError e, r1)
              | None \<Rightarrow> Inr (Some (publicUrl env filePath), r1)))"

definition catch_block :: "thrown \<Rightarrow> run \<Rightarrow> run" where
  "catch_block e r = toast toast_failed (emit (ConsoleError e) r)"

definition finally_block :: "run \<Rightarrow> run" where
  "finally_block r = (if mounted (fst r) then setIsSubmitting False r else r)"

definition new_row :: "user \<Rightarrow> draft \<Rightarrow> string option \<Rightarrow> reported_card" where
  "new_row u values photoUrl =
     \<lparr>reporter_id = user_id u,
      card_number = cardNumber values,
      row_location = location values,
      found_date = foundDate values,
      row_description = or_null (description values),
      photo_url = photoUrl,
      document_type = documentType values\<rparr>"

text \<open>
  \<^verbatim>\<open>onSubmit\<close>. The handler reads \<^verbatim>\<open>file\<close> from the render it was created in, that is,
  from the state at entry.
\<close>

definition onSubmit :: "env \<Rightarrow> draft \<Rightarrow> page \<Rightarrow> run" where
  "onSubmit env values p =
     (if \<not> mounted p then (p, [])
      else
        let r1 = suspend env AwaitGetUser (emit AuthGetUser (setIsSubmitting True (p, [])))
        in finally_block
          (case getUser env of
             None \<Rightarrow> toast toast_unauthenticated r1
           | Some u \<Rightarrow>
               (case upload_photo env (file p) r1 of
                  Inl (e, r2) \<Rightarrow> catch_block e r2
                | Inr (photoUrl, r2) \<Rightarrow>
                    (let r3 = suspend env AwaitInsert
                                (emit (DbInsert ''reported_cards'' (new_row u values photoUrl)) r2)
                     in case insertError env of
                          Some e \<Rightarrow> catch_block (PostgrestError e) r3
                        | None \<Rightarrow>
                            (let r4 = toast toast_sent r3
                             in if mounted (fst r4) then navigate ''/'' r4 else r4)))))"

text \<open>
  The zod resolver turns the issues of a failed parse into the errors of the form. With
  the default \<^verbatim>\<open>criteriaMode\<close> it goes through the issues in order and records an issue
  only when its field has no error yet: each field keeps its first issue.
\<close>

fun keep_first :: "string list \<Rightarrow> issue list \<Rightarrow> issue list" where
  "keep_first seen [] = []"
| "keep_first seen (i # is) =
     (if path i \<in> set seen then keep_first seen is else i # keep_first (path i # seen) is)"

definition parseErrorSchema :: "issue list \<Rightarrow> issue list" where
  "parseErrorSchema zodErrors = keep_first [] zodErrors"

text \<open>
  \<^verbatim>\<open>form.handleSubmit(onSubmit)\<close> with the zod resolver: the current values are parsed
  against the schema; the handler runs only when there is no issue, otherwise the errors
  of the form are shown at the fields.
\<close>

definition handleSubmit :: "env \<Rightarrow> page \<Rightarrow> run" where
  "handleSubmit env p =
     (case formSchema (formValues p) of
        [] \<Rightarrow> onSubmit env (formValues p) p
      | i # is \<Rightarrow> (p, [ShowErrors (parseErrorSchema (i # is))]))"

text \<open>\<^verbatim>\<open>handleFileChange\<close>: stores its argument, if the page is still mounted.\<close>

definition handleFileChange :: "js_value \<Rightarrow> run \<Rightarrow> run" where
  "handleFileChange newFile r = (if mounted (fst r) then setFile newFile r else r)"


subsection \<open>Reading a trace\<close>

fun toasts :: "event list \<Rightarrow> toast_msg list" where
  "toasts [] = []"
| "toasts (ToastShown t # es) = t # toasts es"
| "toasts (_ # es) = toasts es"

fun inserted :: "event list \<Rightarrow> reported_card list" where
  "inserted [] = []"
| "inserted (DbInsert tbl row # es) = row # inserted es"
| "inserted (_ # es) = inserted es"

fun uploads :: "event list \<Rightarrow> (string \<times> js_value) list" where
  "uploads [] = []"
| "uploads (StorageUpload b k v # es) = (k, v) # uploads es"
| "uploads (_ # es) = uploads es"

fun navigations :: "event list \<Rightarrow> string list" where
  "navigations [] = []"
| "navigations (Navigate to # es) = to # navigations es"
| "navigations (_ # es) = navigations es"

text \<open>The effects that change the page's own state, or leave the page.\<close>

fun touches_view :: "event \<Rightarrow> bool" where
  "touches_view (SetIsSubmitting b) = True"
| "touches_view (SetFile v) = True"
| "touches_view (Navigate to) = True"
| "touches_view _ = False"

fun quiet_after_teardown :: "event list \<Rightarrow> bool" where
  "quiet_after_teardown [] = True"
| "quiet_after_teardown (e # es) =
     (if e = Teardown then list_all (\<lambda>x. \<not> touches_view x) es else quiet_after_teardown es)"

subsection \<open>Sample inputs\<close>

definition pdf_small :: File where
  "pdf_small = \<lparr>name = ''scan.pdf'', type = ''application/pdf'', size_bytes = 10\<rparr>"

definition pdf_big :: File where
  "pdf_big = \<lparr>name = ''scan.pdf'', type = ''application/pdf'', size_bytes = 6000000\<rparr>"

definition png_big :: File where
  "png_big = \<lparr>name = ''card.png'', type = ''image/png'', size_bytes = 5242881\<rparr>"

definition jpg_limit :: File where
  "jpg_limit = \<lparr>name = ''card.jpg'', type = ''image/jpg'', size_bytes = 5242880\<rparr>"

definition png_small :: File where
  "png_small = \<lparr>name = ''card.png'', type = ''image/png'', size_bytes = 1024\<rparr>"

definition draft_ok :: draft where
  "draft_ok = \<lparr>documentType = ''id'', cardNumber = ''123'', location = ''Dakar'',
     foundDate = ''2024-05-01'', description = Some []\<rparr>"

definition page0 :: page where
  "page0 = \<lparr>mounted = True, isSubmitting = False, file = JNull,
     formValues = defaultValues, isDragging = False\<rparr>"

definition page_filled :: page where
  "page_filled = page0\<lparr>formValues := draft_ok\<rparr>"

definition user0 :: user where
  "user0 = User ''u-1''"

definition env_ok :: env where
  "env_ok = \<lparr>getUser = Some user0, uploadError = None, publicUrl = (\<lambda>k. ''https://cdn/'' @ k),
     insertError = None, random = ''0.42'', unmountAt = None\<rparr>"

definition env_anonymous :: env where
  "env_anonymous = env_ok\<lparr>getUser := None\<rparr>"

definition env_insert_fails :: env where
  "env_insert_fails = env_ok\<lparr>insertError := Some ''down''\<rparr>"

text \<open>The user leaves the page while the insert is pending.\<close>

definition env_leave_during_insert :: env where
  "env_leave_during_insert = env_ok\<lparr>unmountAt := Some AwaitInsert\<rparr>"

definition env_insert_fails_after_leave :: env where
  "env_insert_fails_after_leave = env_ok\<lparr>insertError := Some ''down'', unmountAt := Some AwaitInsert\<rparr>"

section \<open>Properties\<close>

subsection \<open>Auxiliary facts\<close>

lemma fst_emit: "fst (emit e r) = fst r"
  by (simp add: emit_def)

lemma snd_emit: "snd (emit e r) = snd r @ [e]"
  by (simp add: emit_def)

lemma toasts_append: "toasts (xs @ ys) = toasts xs @ toasts ys"
  by (induction xs rule: toasts.induct) simp_all

lemma inserted_append: "inserted (xs @ ys) = inserted xs @ inserted ys"
  by (induction xs rule: inserted.induct) simp_all

lemma uploads_append: "uploads (xs @ ys) = uploads xs @ uploads ys"
  by (induction xs rule: uploads.induct) simp_all

lemma navigations_append: "navigations (xs @ ys) = navigations xs @ navigations ys"
  by (induction xs rule: navigations.induct) simp_all

lemmas run_simps = fst_emit snd_emit setIsSubmitting_def setFile_def setIsDragging_def toast_def
  navigate_def teardown_def suspend_def catch_block_def finally_block_def

lemmas read_simps = toasts_append inserted_append uploads_append navigations_append

lemma maxSize_eq: "maxSize = 5242880"
  by (simp add: maxSize_def)

lemma toast_distinct: "toast_unsupported \<noteq> toast_too_large"
  by (simp add: toast_unsupported_def toast_too_large_def)

text \<open>The upload block, with its local names unfolded.\<close>

lemma upload_photo_cases:
  "upload_photo env fl r =
     (case fl of JNull \<Rightarrow> Inr (None, r)
      | JChangeEvent fs \<Rightarrow> Inl (TypeError, r)
      | JFile f \<Rightarrow>
         (case uploadError env of
            Some e \<Rightarrow> Inl (StorageError e,
               suspend env AwaitUpload (emit (StorageUpload ''card_photos''
                 (random env @ ''.'' @ last (split CHR ''.'' (name f))) fl) r))
          | None \<Rightarrow> Inr (Some (publicUrl env (random env @ ''.'' @ last (split CHR ''.'' (name f)))),
               suspend env AwaitUpload (emit (StorageUpload ''card_photos''
                 (random env @ ''.'' @ last (split CHR ''.'' (name f))) fl) r))))"
  by (simp add: upload_photo_def Let_def split: js_value.splits option.splits)

text \<open>The pattern accepts exactly the non-empty strings of digits.\<close>

lemma skip_digits_Nil: "skip_digits cs = [] \<longleftrightarrow> (\<forall>c\<in>set cs. is_digit c)"
  by (induction cs) auto

lemma regex_digits_iff: "regex_digits s \<longleftrightarrow> s \<noteq> [] \<and> (\<forall>c\<in>set s. is_digit c)"
  by (cases s) (auto simp: regex_digits_def skip_digits_Nil)

lemma handleSubmit_blocked:
  "formSchema (formValues p) \<noteq> [] \<Longrightarrow>
     handleSubmit env p = (p, [ShowErrors (parseErrorSchema (formSchema (formValues p)))])"
  by (simp add: handleSubmit_def split: list.splits)

text \<open>The submit handler when no file is attached and a user is resolved.\<close>

lemma onSubmit_no_file:
  assumes "mounted p" and "file p = JNull" and "getUser env = Some u"
  shows "onSubmit env values p =
     (let r1 = suspend env AwaitGetUser (emit AuthGetUser (setIsSubmitting True (p, [])));
          r3 = suspend env AwaitInsert (emit (DbInsert ''reported_cards'' (new_row u values None)) r1)
      in finally_block
           (case insertError env of
              Some e \<Rightarrow> catch_block (PostgrestError e) r3
            | None \<Rightarrow> (let r4 = toast toast_sent r3 in if mounted (fst r4) then navigate ''/'' r4 else r4)))"
  using assms by (simp add: onSubmit_def upload_photo_def Let_def)

text \<open>The rows that one run of the submit handler sends: none or one.\<close>

lemma inserted_onSubmit:
  "inserted (snd (onSubmit env values p)) =
     (if \<not> mounted p then []
      else case getUser env of
        None \<Rightarrow> []
      | Some u \<Rightarrow>
         (case upload_photo env (file p) (p, []) of
            Inl x \<Rightarrow> []
          | Inr y \<Rightarrow> [new_row u values (fst y)]))"
  by (simp add: onSubmit_def Let_def run_simps read_simps upload_photo_cases
      split: option.splits js_value.splits)

text \<open>The executable check on a trace means what it should: nothing after a teardown touches the view.\<close>

lemma quiet_after_teardownD:
  "quiet_after_teardown tr \<Longrightarrow> tr = pre @ Teardown # post \<Longrightarrow> e \<in> set post \<Longrightarrow> \<not> touches_view e"
proof (induction pre arbitrary: tr)
  case Nil
  then show ?case by (simp add: list_all_iff)
next
  case (Cons x pre)
  show ?case
  proof (cases "x = Teardown")
    case True
    with Cons.prems show ?thesis by (auto simp: list_all_iff)
  next
    case False
    with Cons.prems have "quiet_after_teardown (pre @ Teardown # post)" by simp
    from Cons.IH [OF this refl Cons.prems(3)] show ?thesis .
  qed
qed

lemma onSubmit_quiet: "quiet_after_teardown (snd (onSubmit env values p))"
  by (simp add: onSubmit_def Let_def run_simps upload_photo_cases
      split: option.splits js_value.splits)

lemma onSubmit_after_teardown:
  "Teardown \<in> set (snd (onSubmit env values p)) \<Longrightarrow>
     fst (onSubmit env values p) = p\<lparr>mounted := False, isSubmitting := True, formValues := defaultValues\<rparr> \<and>
     navigations (snd (onSubmit env values p)) = []"
  by (auto simp add: onSubmit_def Let_def run_simps read_simps upload_photo_cases
      split: option.splits js_value.splits if_splits)

subsection \<open>The file checks of the picker\<close>

text \<open>
  Claim C1. A file whose type is not one of \<^verbatim>\<open>image/jpeg\<close>, \<^verbatim>\<open>image/png\<close>, \<^verbatim>\<open>image/jpg\<close>
  is refused with the unsupported-type message, whatever its size. A file of an allowed
  type is refused with the too-large message when it has more than 5,242,880 bytes, and
  is handed to the owner's callback when it has at most 5,242,880 bytes. The type is
  looked at first, and one message only is shown; the two messages differ.
\<close>

theorem C1_file_validator:
  "set allowedTypes = {''image/jpeg'', ''image/png'', ''image/jpg''} \<and>
   (type f \<notin> set allowedTypes \<longrightarrow>
      validateAndHandleFile onFileChange f r = toast toast_unsupported r) \<and>
   (type f \<in> set allowedTypes \<and> size_bytes f > 5242880 \<longrightarrow>
      validateAndHandleFile onFileChange f r = toast toast_too_large r) \<and>
   (type f \<in> set allowedTypes \<and> size_bytes f \<le> 5242880 \<longrightarrow>
      validateAndHandleFile onFileChange f r = onFileChange (JChangeEvent [f]) r) \<and>
   toast_unsupported \<noteq> toast_too_large"
proof -
  have a: "set allowedTypes = {''image/jpeg'', ''image/png'', ''image/jpg''}"
    by (simp add: allowedTypes_def)
  show ?thesis
    unfolding validateAndHandleFile_def maxSize_eq
    using a toast_distinct by auto
qed

theorem C1_file_validator_witness:
  "validateAndHandleFile handleFileChange pdf_small (page0, []) = toast toast_unsupported (page0, []) \<and>
   validateAndHandleFile handleFileChange pdf_big (page0, []) = toast toast_unsupported (page0, []) \<and>
   validateAndHandleFile handleFileChange png_big (page0, []) = toast toast_too_large (page0, []) \<and>
   validateAndHandleFile handleFileChange jpg_limit (page0, [])
     = handleFileChange (JChangeEvent [jpg_limit]) (page0, [])"
  using C1_file_validator [of pdf_small handleFileChange "(page0, [])"]
    C1_file_validator [of pdf_big handleFileChange "(page0, [])"]
    C1_file_validator [of png_big handleFileChange "(page0, [])"]
    C1_file_validator [of jpg_limit handleFileChange "(page0, [])"]
  by (simp add: pdf_small_def pdf_big_def png_big_def jpg_limit_def)

text \<open>
  Claim C8. When a file is refused (its type is not allowed, or it is too large), the
  picker shows the message of the first failing check and does nothing else: the result
  does not depend on the owner's callback, so the callback is not called. Through either
  way into the picker (file input or drop), and whatever the owner's callback is, the
  attached file stays what it was, and the trace gains no \<^const>\<open>SetFile\<close>.
\<close>

theorem C8_rejected_file_not_attached:
  assumes "type f \<notin> set allowedTypes \<or> size_bytes f > maxSize"
  shows "validateAndHandleFile onFileChange f r
           = toast (if type f \<notin> set allowedTypes then toast_unsupported else toast_too_large) r \<and>
         fst (handleFileInputChange onFileChange (Some (f # fs)) r) = fst r \<and>
         fst (handleDrop onFileChange (f # fs) r) = (fst r)\<lparr>isDragging := False\<rparr> \<and>
         file (fst (handleDrop onFileChange (f # fs) r)) = file (fst r) \<and>
         (\<forall>v. SetFile v \<in> set (snd (handleFileInputChange onFileChange (Some (f # fs)) r))
            \<longrightarrow> SetFile v \<in> set (snd r)) \<and>
         (\<forall>v. SetFile v \<in> set (snd (handleDrop onFileChange (f # fs) r))
            \<longrightarrow> SetFile v \<in> set (snd r))"
  using assms
  by (auto simp add: validateAndHandleFile_def handleDrop_def
      handleFileInputChange_def Let_def run_simps)

theorem C8_rejected_file_not_attached_witness:
  "size_bytes png_big > maxSize \<and>
   file (fst (handleDrop handleFileChange [png_big] (page0\<lparr>file := JFile png_small\<rparr>, [])))
     = JFile png_small \<and>
   fst (handleFileInputChange handleFileChange (Some [png_big]) (page0\<lparr>file := JFile png_small\<rparr>, []))
     = page0\<lparr>file := JFile png_small\<rparr> \<and>
   snd (handleFileInputChange handleFileChange (Some [png_big]) (page0\<lparr>file := JFile png_small\<rparr>, []))
     = [ToastShown toast_too_large]"
  using C8_rejected_file_not_attached
    [of png_big handleFileChange "(page0\<lparr>file := JFile png_small\<rparr>, [])" "[]"]
  by (simp add: png_big_def maxSize_def handleFileInputChange_def toast_def
      emit_def allowedTypes_def)

subsection \<open>The form schema\<close>

text \<open>
  Claim C7. When the document number is empty or contains a character that is not a
  digit, the schema reports an issue and the submit handler is not called: the page is
  unchanged and the only effect is that the errors of the form are shown (per field, the
  first issue). A non-empty document number made of digits only gets no issue from the
  schema. (The witness runs \<^verbatim>\<open>12a3\<close>, the empty string and \<^verbatim>\<open>123\<close>.)
\<close>

theorem C7_cardNumber_digits_only:
  "(cardNumber (formValues p) = [] \<or> (\<exists>c\<in>set (cardNumber (formValues p)). \<not> is_digit c) \<longrightarrow>
      formSchema (formValues p) \<noteq> [] \<and>
      handleSubmit env p = (p, [ShowErrors (parseErrorSchema (formSchema (formValues p)))])) \<and>
   (cardNumber v \<noteq> [] \<and> (\<forall>c\<in>set (cardNumber v). is_digit c) \<longrightarrow>
      filter (\<lambda>i. path i = ''cardNumber'') (formSchema v) = [])"
proof -
  have bad: "formSchema (formValues p) \<noteq> []"
    if "cardNumber (formValues p) = [] \<or> (\<exists>c\<in>set (cardNumber (formValues p)). \<not> is_digit c)"
  proof -
    from that have "\<not> regex_digits (cardNumber (formValues p))"
      by (auto simp: regex_digits_iff)
    then show ?thesis by (simp add: formSchema_def regex_check_def)
  qed
  have good: "filter (\<lambda>i. path i = ''cardNumber'') (formSchema v) = []"
    if "cardNumber v \<noteq> [] \<and> (\<forall>c\<in>set (cardNumber v). is_digit c)"
  proof -
    from that have "regex_digits (cardNumber v)" by (simp add: regex_digits_iff)
    with that show ?thesis by (simp add: formSchema_def regex_check_def min1_def)
  qed
  from bad good show ?thesis by (simp add: handleSubmit_blocked)
qed

theorem C7_cardNumber_digits_only_witness:
  "handleSubmit env_ok (page_filled\<lparr>formValues := draft_ok\<lparr>cardNumber := ''12a3''\<rparr>\<rparr>)
     = (page_filled\<lparr>formValues := draft_ok\<lparr>cardNumber := ''12a3''\<rparr>\<rparr>,
        [ShowErrors [Issue ''cardNumber''
           (''Le num'' @ e_acute @ ''ro du document doit contenir uniquement des chiffres'')]]) \<and>
   formSchema (draft_ok\<lparr>cardNumber := ''12a3''\<rparr>) \<noteq> [] \<and>
   handleSubmit env_ok (page_filled\<lparr>formValues := draft_ok\<lparr>cardNumber := []\<rparr>\<rparr>)
     = (page_filled\<lparr>formValues := draft_ok\<lparr>cardNumber := []\<rparr>\<rparr>,
        [ShowErrors [Issue ''cardNumber'' (''Le num'' @ e_acute @ ''ro du document est requis'')]]) \<and>
   length (formSchema (draft_ok\<lparr>cardNumber := []\<rparr>)) = 2 \<and>
   filter (\<lambda>i. path i = ''cardNumber'') (formSchema draft_ok) = [] \<and>
   cardNumber draft_ok = ''123''"
  using C7_cardNumber_digits_only
      [of "page_filled\<lparr>formValues := draft_ok\<lparr>cardNumber := ''12a3''\<rparr>\<rparr>" env_ok draft_ok]
    C7_cardNumber_digits_only
      [of "page_filled\<lparr>formValues := draft_ok\<lparr>cardNumber := []\<rparr>\<rparr>" env_ok draft_ok]
  by (simp add: page_filled_def page0_def draft_ok_def is_digit_def formSchema_def min1_def
      regex_check_def regex_digits_def parseErrorSchema_def)

subsection \<open>The submission workflow\<close>

text \<open>
  Claim C2. When the submit handler runs on a mounted page and the identity service
  resolves no user, exactly one message is shown, the one that asks the user to sign in,
  and the trace holds no upload to storage and no insert into the table. This holds
  whether or not the page is unmounted while the identity lookup is pending.
\<close>

theorem C2_unauthenticated_aborts:
  assumes "mounted p" and "getUser env = None"
  shows "toasts (snd (onSubmit env values p)) = [toast_unauthenticated] \<and>
         uploads (snd (onSubmit env values p)) = [] \<and>
         inserted (snd (onSubmit env values p)) = []"
  using assms by (simp add: onSubmit_def Let_def run_simps read_simps)

theorem C2_unauthenticated_aborts_witness:
  "mounted page_filled \<and> getUser env_anonymous = None \<and>
   toasts (snd (onSubmit env_anonymous draft_ok page_filled)) = [toast_unauthenticated] \<and>
   uploads (snd (onSubmit env_anonymous draft_ok page_filled)) = [] \<and>
   inserted (snd (onSubmit env_anonymous draft_ok page_filled)) = []"
  using C2_unauthenticated_aborts [of page_filled env_anonymous draft_ok]
  by (simp add: page_filled_def page0_def env_anonymous_def)

text \<open>
  Claim C3. When a file is attached and the upload to storage answers with an error, the
  trace of the submit handler holds no insert into the table; on a mounted page with a
  resolved user the storage error is logged and the one message shown is the failure
  message.
\<close>

theorem C3_upload_failure_no_insert:
  assumes "file p = JFile f" and "uploadError env = Some e"
  shows "inserted (snd (onSubmit env values p)) = [] \<and>
         (mounted p \<and> getUser env \<noteq> None \<longrightarrow>
            toasts (snd (onSubmit env values p)) = [toast_failed] \<and>
            ConsoleError (StorageError e) \<in> set (snd (onSubmit env values p)))"
  using assms
  by (auto simp add: onSubmit_def Let_def run_simps read_simps upload_photo_cases
      split: option.splits)

theorem C3_upload_failure_no_insert_witness:
  "file (page_filled\<lparr>file := JFile png_small\<rparr>) = JFile png_small \<and>
   uploadError (env_ok\<lparr>uploadError := Some ''quota''\<rparr>) = Some ''quota'' \<and>
   inserted (snd (onSubmit (env_ok\<lparr>uploadError := Some ''quota''\<rparr>) draft_ok
      (page_filled\<lparr>file := JFile png_small\<rparr>))) = [] \<and>
   toasts (snd (onSubmit (env_ok\<lparr>uploadError := Some ''quota''\<rparr>) draft_ok
      (page_filled\<lparr>file := JFile png_small\<rparr>))) = [toast_failed]"
  using C3_upload_failure_no_insert [of "page_filled\<lparr>file := JFile png_small\<rparr>" png_small
      "env_ok\<lparr>uploadError := Some ''quota''\<rparr>" "''quota''" draft_ok]
  by (simp add: page_filled_def page0_def env_ok_def)

text \<open>
  Claim C4, as amended. A valid form with no attached file is submitted on a mounted page,
  a user is resolved and the insert succeeds. Then the one message shown is the success
  message (its title is \<^verbatim>\<open>Signalement envoye\<close> with an acute accent on the last letter),
  one row is inserted and its \<^verbatim>\<open>photo_url\<close> is \<^verbatim>\<open>null\<close>. The handler navigates to \<^verbatim>\<open>/\<close>
  unless the page was unmounted while the identity lookup or the insert was pending; in
  that case it does not navigate.
\<close>

theorem C4_valid_form_no_file:
  assumes "mounted p" and "formSchema (formValues p) = []" and "file p = JNull"
    and "getUser env = Some u" and "insertError env = None"
  shows "toasts (snd (handleSubmit env p)) = [toast_sent] \<and>
         title toast_sent = ''Signalement envoy'' @ e_acute \<and>
         inserted (snd (handleSubmit env p)) = [new_row u (formValues p) None] \<and>
         photo_url (new_row u (formValues p) None) = None \<and>
         navigations (snd (handleSubmit env p))
           = (if unmountAt env = Some AwaitGetUser \<or> unmountAt env = Some AwaitInsert then [] else [''/''])"
proof -
  have h: "handleSubmit env p = onSubmit env (formValues p) p"
    using assms(2) by (simp add: handleSubmit_def)
  show ?thesis
    unfolding h onSubmit_no_file [OF assms(1) assms(3) assms(4)]
    using assms(1) assms(5)
    by (simp add: Let_def run_simps read_simps new_row_def toast_sent_def)
qed

theorem C4_valid_form_no_file_witness:
  "toasts (snd (handleSubmit env_ok page_filled)) = [toast_sent] \<and>
   inserted (snd (handleSubmit env_ok page_filled)) = [new_row user0 draft_ok None] \<and>
   navigations (snd (handleSubmit env_ok page_filled)) = [''/'']"
  using C4_valid_form_no_file [of page_filled env_ok user0]
  by (simp add: page_filled_def page0_def env_ok_def draft_ok_def formSchema_def min1_def
      regex_check_def regex_digits_def is_digit_def)

text \<open>
  The claim C4 as first stated fails: the form is valid, no file is attached, a user is
  resolved and the insert succeeds, but the user leaves the page while the insert is
  pending. The success message is shown and the handler does not navigate.
\<close>

theorem C4_navigation_counterexample:
  "mounted page_filled \<and> formSchema (formValues page_filled) = [] \<and> file page_filled = JNull \<and>
   getUser env_leave_during_insert = Some user0 \<and> insertError env_leave_during_insert = None \<and>
   toasts (snd (handleSubmit env_leave_during_insert page_filled)) = [toast_sent] \<and>
   navigations (snd (handleSubmit env_leave_during_insert page_filled)) = []"
  by (simp add: handleSubmit_def onSubmit_def upload_photo_def Let_def run_simps read_simps
      page_filled_def page0_def env_ok_def env_leave_during_insert_def draft_ok_def formSchema_def
      min1_def regex_check_def regex_digits_def is_digit_def)

text \<open>
  Claim C5, as amended. When a submission on a mounted page ends in an error (no user, a
  failed upload, or a failed insert), exactly one message is shown, it is not the success
  message, and the handler does not navigate. If the page was not unmounted meanwhile, the
  state afterwards is the state before with the in-flight flag cleared: field values and
  file selection are untouched. If the page was unmounted while a call was pending, the
  flag is left set, and the other changes are those of the teardown (the mounted flag, the
  reset of the form).
\<close>

theorem C5_error_keeps_form:
  assumes "mounted p"
    and "getUser env = None \<or> (\<exists>f. file p = JFile f \<and> uploadError env \<noteq> None) \<or> insertError env \<noteq> None"
  shows "length (toasts (snd (onSubmit env values p))) = 1 \<and>
         toast_sent \<notin> set (toasts (snd (onSubmit env values p))) \<and>
         navigations (snd (onSubmit env values p)) = [] \<and>
         fst (onSubmit env values p) =
           (if Teardown \<in> set (snd (onSubmit env values p))
            then p\<lparr>mounted := False, isSubmitting := True, formValues := defaultValues\<rparr>
            else p\<lparr>isSubmitting := False\<rparr>) \<and>
         (unmountAt env = None \<longrightarrow> fst (onSubmit env values p) = p\<lparr>isSubmitting := False\<rparr>)"
  using assms
  by (auto simp add: onSubmit_def Let_def run_simps read_simps upload_photo_cases
      toast_sent_def toast_failed_def toast_unauthenticated_def
      split: option.splits js_value.splits)

theorem C5_error_keeps_form_witness:
  "toasts (snd (onSubmit env_insert_fails draft_ok page_filled)) = [toast_failed] \<and>
   fst (onSubmit env_insert_fails draft_ok page_filled) = page_filled \<and>
   toasts (snd (onSubmit env_anonymous draft_ok page_filled)) = [toast_unauthenticated] \<and>
   fst (onSubmit env_anonymous draft_ok page_filled) = page_filled"
  using C5_error_keeps_form [of page_filled env_insert_fails draft_ok]
    C5_error_keeps_form [of page_filled env_anonymous draft_ok]
  by (simp add: onSubmit_def upload_photo_def Let_def run_simps read_simps
      page_filled_def page0_def env_ok_def env_insert_fails_def env_anonymous_def)

text \<open>
  The claim C5 as first stated fails: the insert fails after the user has left the page
  while it was pending. One message is shown, but the in-flight flag, clear before the
  submission, is left set, and the field values are those of the reset form.
\<close>

theorem C5_flag_counterexample:
  "mounted page_filled \<and> isSubmitting page_filled = False \<and>
   getUser env_insert_fails_after_leave = Some user0 \<and> file page_filled = JNull \<and>
   insertError env_insert_fails_after_leave = Some ''down'' \<and>
   toasts (snd (onSubmit env_insert_fails_after_leave draft_ok page_filled)) = [toast_failed] \<and>
   isSubmitting (fst (onSubmit env_insert_fails_after_leave draft_ok page_filled)) = True \<and>
   formValues page_filled = draft_ok \<and>
   formValues (fst (onSubmit env_insert_fails_after_leave draft_ok page_filled)) = defaultValues \<and>
   draft_ok \<noteq> defaultValues"
  by (simp add: onSubmit_def upload_photo_def Let_def run_simps read_simps
      page_filled_def page0_def env_ok_def env_insert_fails_after_leave_def draft_ok_def
      defaultValues_def)

text \<open>
  Claim C10. Every row that the submit handler sends has \<^verbatim>\<open>null\<close> as its description
  when the description of the form is absent or the empty string, and the description of
  the form itself otherwise. A submission on a mounted page with a resolved user, and with
  no file or a file whose upload succeeds, sends exactly one row.
\<close>

theorem C10_description_or_null:
  "(\<forall>row\<in>set (inserted (snd (onSubmit env values p))).
      row_description row =
        (if description values = None \<or> description values = Some [] then None
         else description values)) \<and>
   (mounted p \<and> getUser env \<noteq> None \<and>
      (file p = JNull \<or> (\<exists>f. file p = JFile f \<and> uploadError env = None)) \<longrightarrow>
        length (inserted (snd (onSubmit env values p))) = 1)"
  by (auto simp add: inserted_onSubmit new_row_def or_null_def upload_photo_cases
      split: option.splits sum.splits js_value.splits)

theorem C10_description_or_null_witness:
  "map row_description (inserted (snd (onSubmit env_ok draft_ok page_filled))) = [None] \<and>
   description draft_ok = Some [] \<and>
   map row_description (inserted (snd (onSubmit env_ok (draft_ok\<lparr>description := None\<rparr>) page_filled)))
     = [None] \<and>
   map row_description
     (inserted (snd (onSubmit env_ok (draft_ok\<lparr>description := Some ''0''\<rparr>) page_filled)))
     = [Some ''0'']"
  using C10_description_or_null [of env_ok draft_ok page_filled]
    C10_description_or_null [of env_ok "draft_ok\<lparr>description := None\<rparr>" page_filled]
    C10_description_or_null [of env_ok "draft_ok\<lparr>description := Some ''0''\<rparr>" page_filled]
  by (simp add: inserted_onSubmit upload_photo_def new_row_def or_null_def
      page_filled_def page0_def env_ok_def draft_ok_def)

subsection \<open>Teardown\<close>

text \<open>
  Claim C9. In the trace of a submission, no effect after the teardown sets the in-flight
  flag, sets the attached file or navigates. When a teardown happened during the
  submission, the in-flight flag and the attached file end as they were at that moment
  (the flag set, the file as at entry), and the handler has not navigated. On an unmounted
  page the submit handler and the file callback do nothing. (Messages are still shown
  after a teardown; they are not part of the view's state.)
\<close>

theorem C9_nothing_after_teardown:
  "(snd (onSubmit env values p) = pre @ Teardown # post \<longrightarrow> (\<forall>e\<in>set post. \<not> touches_view e)) \<and>
   (Teardown \<in> set (snd (onSubmit env values p)) \<longrightarrow>
      isSubmitting (fst (onSubmit env values p)) = True \<and>
      file (fst (onSubmit env values p)) = file p \<and>
      navigations (snd (onSubmit env values p)) = []) \<and>
   (\<not> mounted p \<longrightarrow> onSubmit env values p = (p, []) \<and> handleFileChange v (p, tr) = (p, tr))"
proof -
  have a: "\<forall>e\<in>set post. \<not> touches_view e" if "snd (onSubmit env values p) = pre @ Teardown # post"
    using quiet_after_teardownD [OF onSubmit_quiet that] by blast
  have b: "isSubmitting (fst (onSubmit env values p)) = True \<and>
      file (fst (onSubmit env values p)) = file p \<and>
      navigations (snd (onSubmit env values p)) = []" if "Teardown \<in> set (snd (onSubmit env values p))"
    using onSubmit_after_teardown [OF that] by simp
  have c: "onSubmit env values p = (p, []) \<and> handleFileChange v (p, tr) = (p, tr)" if "\<not> mounted p"
    using that by (simp add: onSubmit_def handleFileChange_def)
  from a b c show ?thesis by blast
qed

theorem C9_nothing_after_teardown_witness:
  "snd (onSubmit env_leave_during_insert draft_ok page_filled)
     = [SetIsSubmitting True, AuthGetUser, DbInsert ''reported_cards'' (new_row user0 draft_ok None)]
       @ Teardown # [ToastShown toast_sent] \<and>
   touches_view (ToastShown toast_sent) = False \<and>
   isSubmitting (fst (onSubmit env_leave_during_insert draft_ok page_filled)) = True \<and>
   file (fst (onSubmit env_leave_during_insert draft_ok page_filled)) = JNull \<and>
   navigations (snd (onSubmit env_leave_during_insert draft_ok page_filled)) = [] \<and>
   onSubmit env_ok draft_ok (page_filled\<lparr>mounted := False\<rparr>) = (page_filled\<lparr>mounted := False\<rparr>, []) \<and>
   handleFileChange (JFile png_small) (page_filled\<lparr>mounted := False\<rparr>, [])
     = (page_filled\<lparr>mounted := False\<rparr>, [])"
  using C9_nothing_after_teardown [of env_leave_during_insert draft_ok page_filled
      "[SetIsSubmitting True, AuthGetUser, DbInsert ''reported_cards'' (new_row user0 draft_ok None)]"
      "[ToastShown toast_sent]" "JFile png_small" "[]"]
    C9_nothing_after_teardown [of env_ok draft_ok "page_filled\<lparr>mounted := False\<rparr>"
      "[]" "[]" "JFile png_small" "[]"]
  by (simp add: onSubmit_def upload_photo_def Let_def run_simps
      page_filled_def page0_def env_ok_def env_leave_during_insert_def)

subsection \<open>From the picker to the page\<close>



end
